theory Spec2Isabelle
  imports Complex_Main
begin

section \<open>Values, tables and files\<close>

text \<open>
  The program (\<^verbatim>\<open>main.py\<close>) keeps its transactions in a pandas DataFrame and in the CSV
  file \<^verbatim>\<open>finance_data.csv\<close>. A DataFrame is modelled by its column labels and its rows,
  a row being the list of its cells in column order (the index is not modelled).

  A cell is a missing value (\<open>NaN\<close> stands for pandas' NaN, NaT and None alike: exactly the
  values \<^verbatim>\<open>isnull\<close> and \<^verbatim>\<open>dropna\<close> treat as null), a text, a number or a timestamp.
  A float is modelled by the real number it denotes; rounding, signed zero and the
  infinities are not modelled. A timestamp is a calendar date; the time of day is not
  modelled.
\<close>

datatype timestamp = Timestamp (year: nat) (month: nat) (day: nat)

datatype cell = NaN | Str string | Num real | Date timestamp

record frame =
  columns :: "string list"
  rows :: "cell list list"

text \<open>The Python exceptions the modelled code can meet.\<close>

datatype error =
    FileNotFoundError
  | EmptyDataError
  | ParserError
  | KeyError string
  | ValueError
  | TypeError
  | ExportError

text \<open>
  The content of a CSV file is the list of its records, a record being the list of its
  fields as text. The lexical layer of CSV (delimiters, quoting, line ends) is not modelled,
  and blank lines, which pandas skips, are not records. A path holds a file or nothing.
\<close>

type_synonym csv = "string list list"

type_synonym csv_file = "csv option"

definition canonical :: "string list" where
  "canonical = [''Date'', ''Type'', ''Category'', ''Description'', ''Amount'']"

subsection \<open>Initialising the data file (lines 17-19)\<close>

text \<open>
  \<^verbatim>\<open>if not os.path.exists(data_file):
      pd.DataFrame(columns=[...]).to_csv(data_file, index=False)\<close>
  An empty DataFrame written without its index is the header record alone.
\<close>

definition initialize :: "csv_file \<Rightarrow> csv_file" where
  "initialize f = (case f of None \<Rightarrow> Some [canonical] | Some c \<Rightarrow> Some c)"

subsection \<open>Appending a transaction (lines 31-34)\<close>

text \<open>
  \<^verbatim>\<open>new_entry = pd.DataFrame([[date, t_type, category, description, amount]], columns=[...])
  new_entry.to_csv(data_file, mode='a', header=False, index=False)\<close>
  \<^verbatim>\<open>to_csv\<close> writes each cell as its text: a string as it is (the empty string as an empty
  field), a date as \<^verbatim>\<open>str(date)\<close>, a float as its \<^verbatim>\<open>repr\<close>. The date and the amount are
  passed to the model as that text. Mode \<^verbatim>\<open>'a'\<close> creates a missing file.
\<close>

definition save_transaction ::
  "string \<Rightarrow> string \<Rightarrow> string \<Rightarrow> string \<Rightarrow> string \<Rightarrow> csv_file \<Rightarrow> csv_file" where
  "save_transaction date t_type category description amount f =
     Some ((case f of None \<Rightarrow> [] | Some c \<Rightarrow> c)
           @ [[date, t_type, category, description, amount]])"

section \<open>The pandas operations the program calls\<close>

text \<open>
  pandas is a library, not code of this repository. Its operations are modelled here as far
  as the program uses them, from the pandas documentation. The conversions of a text to a
  number and to a date are parameters of the model (\<open>to_num\<close>, \<open>to_date\<close>: \<open>None\<close> where the
  text does not convert), applied cell by cell.
\<close>

subsection \<open>Reading a CSV file\<close>

text \<open>The texts \<^verbatim>\<open>read_csv\<close> reads as a missing value (its default \<^verbatim>\<open>na_values\<close>).\<close>

definition na_values :: "string list" where
  "na_values =
     ['''', ''#N/A'', ''#N/A N/A'', ''#NA'', ''-1.#IND'', ''-1.#QNAN'', ''-NaN'', ''-nan'',
      ''1.#IND'', ''1.#QNAN'', ''<NA>'', ''N/A'', ''NA'', ''NULL'', ''NaN'', ''None'',
      ''n/a'', ''nan'', ''null'']"

text \<open>
  A field that is not a missing value is kept as its text: the type \<^verbatim>\<open>read_csv\<close> infers
  for a column is not modelled.
\<close>

definition read_cell :: "string \<Rightarrow> cell" where
  "read_cell s = (if s \<in> set na_values then NaN else Str s)"

text \<open>
  \<^verbatim>\<open>pd.read_csv(path)\<close>: a missing file and a file without any record raise. The first
  record is the header; its fields are taken to be the column labels as pandas assigns
  them (its renaming of repeated and of blank header fields is not modelled). The width
  of the table is that of the header or, if it is longer, of the first data record; a
  later record with more fields raises, a shorter record is filled with missing values,
  and the fields by which the table is wider than the header are the index, which is not
  part of the frame.
\<close>

definition read_csv :: "csv_file \<Rightarrow> error + frame" where
  "read_csv f =
     (case f of
        None \<Rightarrow> Inl FileNotFoundError
      | Some [] \<Rightarrow> Inl EmptyDataError
      | Some (header # body) \<Rightarrow>
          (let h = length header;
               w = (case body of [] \<Rightarrow> h | r # _ \<Rightarrow> max h (length r))
           in if list_ex (\<lambda>r. w < length r) body then Inl ParserError
              else Inr \<lparr>columns = header,
                        rows = map (\<lambda>r. map read_cell
                                 (drop (w - h) (r @ replicate (w - length r) ''''))) body\<rparr>))"

subsection \<open>Columns of a frame\<close>

fun index_of :: "'a \<Rightarrow> 'a list \<Rightarrow> nat" where
  "index_of x [] = 0"
| "index_of x (y # ys) = (if x = y then 0 else Suc (index_of x ys))"

definition cell_of :: "cell list \<Rightarrow> nat \<Rightarrow> cell" where
  "cell_of r i = (if i < length r then r ! i else NaN)"

text \<open>The cell of row \<open>r\<close> under the (first) column labelled \<open>name\<close>.\<close>

definition cell_at :: "frame \<Rightarrow> cell list \<Rightarrow> string \<Rightarrow> cell" where
  "cell_at df r name = cell_of r (index_of name (columns df))"

text \<open>
  \<^verbatim>\<open>df[name]\<close> as a Series: a missing label raises \<^verbatim>\<open>KeyError\<close>. A label that several
  columns carry selects a DataFrame, on which every caller in this program raises
  (\<^verbatim>\<open>to_numeric\<close>, \<^verbatim>\<open>to_datetime\<close>, the truth value of \<^verbatim>\<open>isnull().all()\<close>,
  \<^verbatim>\<open>groupby\<close>); the model raises at the selection.
\<close>

definition getitem :: "frame \<Rightarrow> string \<Rightarrow> error + cell list" where
  "getitem df name =
     (if name \<notin> set (columns df) then Inl (KeyError name)
      else if 1 < count_list (columns df) name then Inl TypeError
      else Inr (map (\<lambda>r. cell_at df r name) (rows df)))"

text \<open>
  \<^verbatim>\<open>df[name] = values\<close>: an existing column is overwritten in place, a new label is
  appended as the last column.
\<close>

definition setitem :: "frame \<Rightarrow> string \<Rightarrow> cell list \<Rightarrow> frame" where
  "setitem df name vals =
     (if name \<in> set (columns df)
      then df\<lparr>rows := map2 (\<lambda>r v. r[index_of name (columns df) := v]) (rows df) vals\<rparr>
      else df\<lparr>columns := columns df @ [name],
               rows := map2 (\<lambda>r v. r @ [v]) (rows df) vals\<rparr>)"

text \<open>\<^verbatim>\<open>df.dropna()\<close> keeps the rows without any missing value.\<close>

definition dropna :: "frame \<Rightarrow> frame" where
  "dropna df = df\<lparr>rows := filter (\<lambda>r. NaN \<notin> set r) (rows df)\<rparr>"

text \<open>\<^verbatim>\<open>df.dropna(subset=names)\<close> keeps the rows without a missing value in those columns.\<close>

definition dropna_subset :: "string list \<Rightarrow> frame \<Rightarrow> frame" where
  "dropna_subset names df =
     df\<lparr>rows := filter (\<lambda>r. list_all (\<lambda>n. cell_at df r n \<noteq> NaN) names) (rows df)\<rparr>"

text \<open>
  \<^verbatim>\<open>df.rename(columns={old: new, ...})\<close> relabels every column whose label is a key of the
  dictionary.
\<close>

definition rename :: "(string \<times> string) list \<Rightarrow> frame \<Rightarrow> frame" where
  "rename d df =
     df\<lparr>columns := map (\<lambda>c. case map_of d c of None \<Rightarrow> c | Some new \<Rightarrow> new) (columns df)\<rparr>"

subsection \<open>Conversions\<close>

text \<open>
  \<^verbatim>\<open>pd.to_numeric(s, errors="coerce")\<close> on one cell: a text that is not a number becomes
  NaN, a missing value stays missing. The program converts columns as they were read, so
  the conversion never meets a timestamp.
\<close>

fun to_numeric :: "(string \<Rightarrow> real option) \<Rightarrow> cell \<Rightarrow> cell" where
  "to_numeric to_num NaN = NaN"
| "to_numeric to_num (Str s) = (case to_num s of None \<Rightarrow> NaN | Some x \<Rightarrow> Num x)"
| "to_numeric to_num (Num x) = Num x"
| "to_numeric to_num (Date d) = NaN"

text \<open>
  \<^verbatim>\<open>pd.to_datetime(s, errors="coerce")\<close> on one cell: what is not a date becomes NaT. The
  program converts columns as they were read, so the conversion never meets a number.
\<close>

fun to_datetime :: "(string \<Rightarrow> timestamp option) \<Rightarrow> cell \<Rightarrow> cell" where
  "to_datetime to_date NaN = NaN"
| "to_datetime to_date (Str s) = (case to_date s of None \<Rightarrow> NaN | Some d \<Rightarrow> Date d)"
| "to_datetime to_date (Num x) = NaN"
| "to_datetime to_date (Date d) = Date d"

text \<open>
  \<^verbatim>\<open>read_csv(..., parse_dates=[name])\<close>: a missing column raises \<^verbatim>\<open>ValueError\<close>. The column
  is converted when each of its texts is a date, and is left as it was read otherwise;
  a missing value is NaT either way.
\<close>

definition parse_dates :: "(string \<Rightarrow> timestamp option) \<Rightarrow> string \<Rightarrow> frame \<Rightarrow> error + frame" where
  "parse_dates to_date name df =
     (case getitem df name of
        Inl e \<Rightarrow> Inl ValueError
      | Inr s \<Rightarrow>
          if list_all (\<lambda>c. c = NaN \<or> to_datetime to_date c \<noteq> NaN) s
          then Inr (setitem df name (map (to_datetime to_date) s))
          else Inr df)"

section \<open>The store\<close>

subsection \<open>Loading the data file (lines 22-28)\<close>

text \<open>
  The body of the \<^verbatim>\<open>try\<close>:
  \<^verbatim>\<open>df = pd.read_csv(data_file, parse_dates=["Date"])
  df["Amount"] = pd.to_numeric(df["Amount"], errors="coerce")
  return df.dropna()\<close>
\<close>

definition load_data_try ::
  "(string \<Rightarrow> timestamp option) \<Rightarrow> (string \<Rightarrow> real option) \<Rightarrow> csv_file \<Rightarrow> error + frame" where
  "load_data_try to_date to_num f =
     (case read_csv f of
        Inl e \<Rightarrow> Inl e
      | Inr df0 \<Rightarrow>
          (case parse_dates to_date ''Date'' df0 of
             Inl e \<Rightarrow> Inl e
           | Inr df \<Rightarrow>
               (case getitem df ''Amount'' of
                  Inl e \<Rightarrow> Inl e
                | Inr amount \<Rightarrow>
                    Inr (dropna (setitem df ''Amount'' (map (to_numeric to_num) amount))))))"

text \<open>
  The bare \<^verbatim>\<open>except:\<close> turns every exception into
  \<^verbatim>\<open>pd.DataFrame(columns=["Date", "Type", "Category", "Description", "Amount"])\<close>.
\<close>

definition load_data ::
  "(string \<Rightarrow> timestamp option) \<Rightarrow> (string \<Rightarrow> real option) \<Rightarrow> csv_file \<Rightarrow> frame" where
  "load_data to_date to_num f =
     (case load_data_try to_date to_num f of
        Inl e \<Rightarrow> \<lparr>columns = canonical, rows = []\<rparr>
      | Inr df \<Rightarrow> df)"

subsection \<open>Conversions for concrete inputs\<close>

text \<open>
  Two conversions to run the model on concrete files: plain decimal literals
  (\<^verbatim>\<open>-50\<close>, \<^verbatim>\<open>1000.0\<close>) and ISO dates (\<^verbatim>\<open>2024-01-01\<close>), on which pandas' own conversions
  agree with them.
\<close>

definition digit :: "char \<Rightarrow> nat option" where
  "digit c = (let n = (of_char c :: nat) in if 48 \<le> n \<and> n \<le> 57 then Some (n - 48) else None)"

fun digits :: "string \<Rightarrow> nat \<Rightarrow> nat option" where
  "digits [] acc = Some acc"
| "digits (c # cs) acc = (case digit c of None \<Rightarrow> None | Some d \<Rightarrow> digits cs (10 * acc + d))"

definition number :: "string \<Rightarrow> nat option" where
  "number s = (if s = [] then None else digits s 0)"

definition unsigned_literal :: "string \<Rightarrow> real option" where
  "unsigned_literal s =
     (let ip = takeWhile (\<lambda>c. c \<noteq> CHR ''.'') s; rest = dropWhile (\<lambda>c. c \<noteq> CHR ''.'') s
      in case rest of
           [] \<Rightarrow> map_option real (number ip)
         | _ # fp \<Rightarrow>
             (case (number ip, number fp) of
                (Some i, Some f) \<Rightarrow> Some (real i + real f / 10 ^ length fp)
              | _ \<Rightarrow> None))"

definition decimal_literal :: "string \<Rightarrow> real option" where
  "decimal_literal s =
     (case s of
        [] \<Rightarrow> None
      | c # t \<Rightarrow> if c = CHR ''-'' then map_option uminus (unsigned_literal t)
                 else unsigned_literal s)"

definition iso_date :: "string \<Rightarrow> timestamp option" where
  "iso_date s =
     (if length s = 10 \<and> s ! 4 = CHR ''-'' \<and> s ! 7 = CHR ''-''
      then (case (number (take 4 s), number (take 2 (drop 5 s)), number (drop 8 s)) of
              (Some y, Some m, Some d) \<Rightarrow>
                if 1 \<le> m \<and> m \<le> 12 \<and> 1 \<le> d \<and> d \<le> 31 then Some (Timestamp y m d) else None
            | _ \<Rightarrow> None)
      else None)"

section \<open>The normalizer\<close>

subsection \<open>Lower-casing the column labels\<close>

text \<open>
  \<^verbatim>\<open>str.lower()\<close> on the letters A-Z; every other byte is left as it is (the case
  mapping of characters beyond ASCII is not modelled).
\<close>

definition lower_char :: "char \<Rightarrow> char" where
  "lower_char c =
     (case map_of (zip ''ABCDEFGHIJKLMNOPQRSTUVWXYZ'' ''abcdefghijklmnopqrstuvwxyz'') c of
        None \<Rightarrow> c
      | Some l \<Rightarrow> l)"

definition lower :: "string \<Rightarrow> string" where
  "lower s = map lower_char s"

subsection \<open>Analysing an uploaded file (lines 107-131)\<close>

text \<open>
  What the function reports: the error message of the column check (line 113), the error
  message of the \<^verbatim>\<open>except\<close> clause (line 147), or the processed table, which is then
  displayed, plotted and offered for download (lines 132-144).
\<close>

datatype outcome = SchemaError string | ProcessingError error | Normalized frame

definition schema_message :: string where
  "schema_message = ''Uploaded CSV must contain 'Date' and 'Amount' columns.''"

text \<open>
  \<^verbatim>\<open>lambda x: "Income" if x >= 0 else "Expense"\<close>; a comparison with NaN is false.
\<close>

definition derive_type :: "cell \<Rightarrow> cell" where
  "derive_type x =
     (case x of
        Num a \<Rightarrow> if 0 \<le> a then Str ''Income'' else Str ''Expense''
      | _ \<Rightarrow> Str ''Expense'')"

text \<open>\<^verbatim>\<open>df[name] = value\<close> with a scalar: the value in every row.\<close>

definition setitem_scalar :: "frame \<Rightarrow> string \<Rightarrow> cell \<Rightarrow> frame" where
  "setitem_scalar df name v = setitem df name (replicate (length (rows df)) v)"

text \<open>
  \<^verbatim>\<open>df = pd.read_csv(uploaded_file)
  df.columns = df.columns.str.lower()
  if not {'date', 'amount'}.issubset(df.columns):
      st.error("Uploaded CSV must contain 'Date' and 'Amount' columns.")
      return
  df["date"] = pd.to_datetime(df["date"], errors='coerce')
  df["amount"] = pd.to_numeric(df["amount"], errors='coerce')
  df.dropna(subset=["date", "amount"], inplace=True)
  df.rename(columns={"date": "Date", "amount": "Amount"}, inplace=True)
  df["Type"] = df["Amount"].apply(lambda x: "Income" if x >= 0 else "Expense")
  if "category" not in df.columns:
      df["Category"] = "Uncategorized"
  else:
      df.rename(columns={"category": "Category"}, inplace=True)
  if "description" not in df.columns:
      df["Description"] = ""\<close>
  The uploaded file always exists; an exception anywhere is caught by
  \<^verbatim>\<open>except Exception as e\<close>. Where two columns carry the label \<^verbatim>\<open>date\<close> after the
  lower-casing, \<^verbatim>\<open>pd.to_datetime\<close> is given a DataFrame and raises \<^verbatim>\<open>ValueError\<close>; where
  two carry \<^verbatim>\<open>amount\<close>, \<^verbatim>\<open>pd.to_numeric\<close> raises \<^verbatim>\<open>TypeError\<close>.
\<close>

definition analyze_uploaded_file ::
  "(string \<Rightarrow> timestamp option) \<Rightarrow> (string \<Rightarrow> real option) \<Rightarrow> csv \<Rightarrow> outcome" where
  "analyze_uploaded_file to_date to_num uploaded_file =
     (case read_csv (Some uploaded_file) of
        Inl e \<Rightarrow> ProcessingError e
      | Inr df0 \<Rightarrow>
          (let df1 = df0\<lparr>columns := map lower (columns df0)\<rparr> in
           if \<not> set [''date'', ''amount''] \<subseteq> set (columns df1)
           then SchemaError schema_message
           else
             (case getitem df1 ''date'' of
                Inl e \<Rightarrow> ProcessingError ValueError
              | Inr date \<Rightarrow>
                  (let df2 = setitem df1 ''date'' (map (to_datetime to_date) date) in
                   case getitem df2 ''amount'' of
                     Inl e \<Rightarrow> ProcessingError e
                   | Inr amount \<Rightarrow>
                       (let df3 = setitem df2 ''amount'' (map (to_numeric to_num) amount);
                            df4 = dropna_subset [''date'', ''amount''] df3;
                            df5 = rename [(''date'', ''Date''), (''amount'', ''Amount'')] df4
                        in case getitem df5 ''Amount'' of
                             Inl e \<Rightarrow> ProcessingError e
                           | Inr a \<Rightarrow>
                               (let df6 = setitem df5 ''Type'' (map derive_type a);
                                    df7 = (if ''category'' \<notin> set (columns df6)
                                           then setitem_scalar df6 ''Category'' (Str ''Uncategorized'')
                                           else rename [(''category'', ''Category'')] df6);
                                    df8 = (if ''description'' \<notin> set (columns df7)
                                           then setitem_scalar df7 ''Description'' (Str '''')
                                           else df7)
                                in Normalized df8))))))"

text \<open>
  A processed table carries a number under Amount in every row and, under Type, the label
  of the sign of that number; and it is rectangular.
\<close>

definition typed :: "frame \<Rightarrow> bool" where
  "typed df =
     ((\<forall>r\<in>set (rows df). length r = length (columns df))
      \<and> ''Amount'' \<in> set (columns df) \<and> ''Type'' \<in> set (columns df)
      \<and> (\<forall>r\<in>set (rows df). \<exists>a. cell_at df r ''Amount'' = Num a
             \<and> cell_at df r ''Type'' = Str (if 0 \<le> a then ''Income'' else ''Expense'')))"

section \<open>The reporter\<close>

subsection \<open>Summary plots (lines 37-54)\<close>

text \<open>
  A figure is modelled by the aggregated table it draws: the groups with the sum of the
  amounts of each. The Streamlit and Plotly calls are taken not to raise.
\<close>

datatype figure = LineChart "(cell list \<times> real) list" | PieChart "(cell list \<times> real) list"

text \<open>\<^verbatim>\<open>df.empty\<close>: an axis of length 0.\<close>

definition is_empty :: "frame \<Rightarrow> bool" where
  "is_empty df = (rows df = [] \<or> columns df = [])"

fun check_columns :: "frame \<Rightarrow> string list \<Rightarrow> error option" where
  "check_columns df [] = None"
| "check_columns df (n # ns) =
     (case getitem df n of Inl e \<Rightarrow> Some e | Inr s \<Rightarrow> check_columns df ns)"

text \<open>
  The number a cell adds to a sum; \<^verbatim>\<open>sum\<close> skips NaN. The tables that reach the reporter
  have a numeric Amount column, on which both the store and the normalizer insist.
\<close>

definition amount_of :: "cell \<Rightarrow> real" where
  "amount_of c = (case c of Num x \<Rightarrow> x | _ \<Rightarrow> 0)"

text \<open>
  \<^verbatim>\<open>df.groupby(keys)[val].sum().reset_index()\<close>: a missing key or value column raises; the
  rows with a missing value in a key are left out. pandas sorts the groups by their key;
  the model lists them in the order of the rows.
\<close>

definition groupby_sum :: "string list \<Rightarrow> string \<Rightarrow> frame \<Rightarrow> error + (cell list \<times> real) list" where
  "groupby_sum keys val df =
     (case check_columns df (keys @ [val]) of
        Some e \<Rightarrow> Inl e
      | None \<Rightarrow>
          (let key = (\<lambda>r. map (cell_at df r) keys);
               groups = remdups (filter (\<lambda>k. NaN \<notin> set k) (map key (rows df)))
           in Inr (map (\<lambda>g. (g, sum_list (map (\<lambda>r. amount_of (cell_at df r val))
                                        (filter (\<lambda>r. key r = g) (rows df))))) groups)))"

text \<open>
  \<^verbatim>\<open>if df.empty:
      return [], []
  trend = df.groupby(["Date", "Type"])["Amount"].sum().reset_index()
  fig1 = px.line(trend, ...)
  fig2 = None
  if "Category" in df.columns and not df["Category"].isnull().all():
      cat_df = df.groupby("Category")["Amount"].sum().reset_index()
      fig2 = px.pie(cat_df, ...)
  return fig1, fig2\<close>
  The empty list, returned for an empty table, is false like \<^verbatim>\<open>None\<close> where the caller
  tests it, and is modelled as \<open>None\<close>.
\<close>

definition plot_summary :: "frame \<Rightarrow> error + (figure option \<times> figure option)" where
  "plot_summary df =
     (if is_empty df then Inr (None, None)
      else
        (case groupby_sum [''Date'', ''Type''] ''Amount'' df of
           Inl e \<Rightarrow> Inl e
         | Inr trend \<Rightarrow>
             (if ''Category'' \<in> set (columns df)
              then
                (case getitem df ''Category'' of
                   Inl e \<Rightarrow> Inl e
                 | Inr category \<Rightarrow>
                     if \<not> list_all (\<lambda>c. c = NaN) category
                     then
                       (case groupby_sum [''Category''] ''Amount'' df of
                          Inl e \<Rightarrow> Inl e
                        | Inr cat_df \<Rightarrow> Inr (Some (LineChart trend), Some (PieChart cat_df)))
                     else Inr (Some (LineChart trend), None))
              else Inr (Some (LineChart trend), None))))"

subsection \<open>The PDF export (lines 70-104)\<close>

text \<open>
  The document is modelled by the list of its elements; a line of the report by the five
  cells the f-string formats.
\<close>

datatype element = Heading string | RowLine "cell list" | Spacer nat | Image_flowable string nat nat

text \<open>
  What the export cannot control: whether \<^verbatim>\<open>fig.write_image(path)\<close> succeeds (it raises
  without leaving a file otherwise) and whether \<^verbatim>\<open>doc.build(elements)\<close> succeeds.
\<close>

record env =
  write_image_ok :: "string \<Rightarrow> bool"
  build_ok :: bool

text \<open>
  \<^verbatim>\<open>for i, row in data.iterrows():
      line = f"{row['Date']} | {row['Type']} | {row['Category']} | {row['Description']} | {row['Amount']}"
      elements.append(Paragraph(line, styles['Normal']))
      elements.append(Spacer(1, 6))\<close>
  \<^verbatim>\<open>row[name]\<close> raises \<^verbatim>\<open>KeyError\<close> for a missing column. The constructors of the
  document elements are taken not to raise.
\<close>

definition report_lines :: "frame \<Rightarrow> error + element list" where
  "report_lines data =
     (if rows data = [] then Inr []
      else
        (case find (\<lambda>n. n \<notin> set (columns data)) canonical of
           Some n \<Rightarrow> Inl (KeyError n)
         | None \<Rightarrow>
             Inr (concat (map (\<lambda>row. [RowLine (map (cell_at data row) canonical), Spacer 6])
                           (rows data)))))"

text \<open>
  The function on the set of the files that exist; it returns the document, or the
  exception that ends it, and the files that exist afterwards.
  \<^verbatim>\<open>fig1, fig2 = plot_summary(data, return_figs=True, key_suffix="pdf")
  img_path1, img_path2 = None, None
  if fig1:
      img_path1 = "trend_plot.png"
      fig1.write_image(img_path1)
      elements.append(Spacer(1, 12))
      elements.append(Image(img_path1, width=480, height=250))
  if fig2:
      img_path2 = "pie_chart.png"
      fig2.write_image(img_path2)
      elements.append(Spacer(1, 12))
      elements.append(Image(img_path2, width=400, height=250))
  doc.build(elements)
  output.seek(0)
  if img_path1 and os.path.exists(img_path1):
      os.remove(img_path1)
  if img_path2 and os.path.exists(img_path2):
      os.remove(img_path2)
  return output.getvalue()\<close>
\<close>

definition get_pdf_download ::
  "env \<Rightarrow> frame \<Rightarrow> string set \<Rightarrow> (error + element list) \<times> string set" where
  "get_pdf_download e data files =
     (case report_lines data of
        Inl x \<Rightarrow> (Inl x, files)
      | Inr lines \<Rightarrow>
          (let elements = [Heading ''Finance Report'', Spacer 12] @ lines in
           case plot_summary data of
             Inl x \<Rightarrow> (Inl x, files)
           | Inr (fig1, fig2) \<Rightarrow>
               if fig1 \<noteq> None \<and> \<not> write_image_ok e ''trend_plot.png''
               then (Inl ExportError, files)
               else
                 (let files1 = (if fig1 \<noteq> None then insert ''trend_plot.png'' files else files);
                      elements1 = (if fig1 \<noteq> None
                                   then elements @ [Spacer 12, Image_flowable ''trend_plot.png'' 480 250]
                                   else elements)
                  in if fig2 \<noteq> None \<and> \<not> write_image_ok e ''pie_chart.png''
                     then (Inl ExportError, files1)
                     else
                       (let files2 = (if fig2 \<noteq> None then insert ''pie_chart.png'' files1
                                      else files1);
                            elements2 = (if fig2 \<noteq> None
                                         then elements1 @ [Spacer 12, Image_flowable ''pie_chart.png'' 400 250]
                                         else elements1)
                        in if \<not> build_ok e then (Inl ExportError, files2)
                           else
                             (let files3 = (if fig1 \<noteq> None then files2 - {''trend_plot.png''}
                                            else files2);
                                  files4 = (if fig2 \<noteq> None then files3 - {''pie_chart.png''}
                                            else files3)
                              in (Inr elements2, files4))))))"

text \<open>A table of two transactions, the second without a category.\<close>

definition sample :: frame where
  "sample = \<lparr>columns = canonical,
             rows = [[Date (Timestamp 2024 1 1), Str ''Income'', Str ''Salary'', Str ''pay'', Num 1000],
                     [Date (Timestamp 2024 1 2), Str ''Expense'', NaN, Str ''lunch'', Num 12]]\<rparr>"

text \<open>A table in which a category occurs twice and a row has none.\<close>

definition sample_categories :: frame where
  "sample_categories =
     \<lparr>columns = canonical,
      rows = [[Date (Timestamp 2024 1 1), Str ''Income'', Str ''Salary'', Str ''pay'', Num 1000],
              [Date (Timestamp 2024 1 2), Str ''Expense'', Str ''Food'', Str ''lunch'', Num (- 12)],
              [Date (Timestamp 2024 1 3), Str ''Expense'', NaN, Str ''bus'', Num (- 3)],
              [Date (Timestamp 2024 2 1), Str ''Income'', Str ''Salary'', Str ''pay'', Num 500]]\<rparr>"

subsection \<open>The records of a canonical data file that are kept\<close>

text \<open>
  A record of five fields is kept when none of its fields reads as a missing value and its
  Amount (the fifth field) converts to a number.
\<close>

definition kept :: "(string \<Rightarrow> real option) \<Rightarrow> string list \<Rightarrow> bool" where
  "kept to_num r = (list_all (\<lambda>s. s \<notin> set na_values) r \<and> to_num (r ! 4) \<noteq> None)"

section \<open>Store initialisation\<close>

lemma initialize_funpow: "(initialize ^^ Suc n) f = initialize f"
  by (induction n) (simp_all add: initialize_def split: option.splits)

text \<open>
  Claim C7. Initialisation is idempotent: a missing data file is created with the
  canonical header record and no data record; an existing file, whatever it holds, is left
  as it is, however many times initialisation runs.
\<close>

theorem initialize_idempotent:
  "initialize (initialize f) = initialize f
   \<and> initialize None = Some [canonical]
   \<and> (initialize ^^ n) (Some c) = Some c
   \<and> (initialize ^^ Suc n) f = initialize f"
proof -
  have "(initialize ^^ n) (Some c) = Some c"
    by (induction n) (simp_all add: initialize_def)
  then show ?thesis
    using initialize_funpow [of n f]
    by (simp add: initialize_def split: option.splits)
qed

theorem initialize_idempotent_witness:
  "initialize (initialize None) = initialize None
   \<and> initialize None = Some [canonical]
   \<and> (initialize ^^ 3) (Some [canonical, [''2024-01-01'', ''Income'', ''Salary'', ''pay'', ''1000.0'']])
       = Some [canonical, [''2024-01-01'', ''Income'', ''Salary'', ''pay'', ''1000.0'']]
   \<and> (initialize ^^ Suc 3) None = initialize None"
  by (rule initialize_idempotent)

section \<open>Properties of the frame operations\<close>

lemma map2_map_same: "map2 f xs (map g xs) = map (\<lambda>x. f x (g x)) xs"
  by (induction xs) simp_all

lemma setitem_existing:
  "name \<in> set (columns df) \<Longrightarrow>
   setitem df name (map h (map (\<lambda>r. cell_at df r name) (rows df)))
     = df\<lparr>rows := map (\<lambda>r. r[index_of name (columns df) := h (cell_at df r name)]) (rows df)\<rparr>"
  by (simp add: setitem_def map2_map_same)

lemma getitem_Inr:
  "getitem df name = Inr s \<Longrightarrow>
     name \<in> set (columns df) \<and> s = map (\<lambda>r. cell_at df r name) (rows df)"
  by (auto simp: getitem_def split: if_splits)

lemma update_cell_of: "r[i := cell_of r i] = r"
  by (simp add: cell_of_def list_update_beyond)

text \<open>Every operation keeps a frame rectangular: each row has one cell for each column.\<close>

lemma read_csv_rect:
  assumes "read_csv f = Inr df"
  shows "\<forall>r\<in>set (rows df). length r = length (columns df)"
proof -
  from assms obtain header body where f: "f = Some (header # body)"
    by (auto simp: read_csv_def split: option.splits list.splits)
  define w where "w = (case body of [] \<Rightarrow> length header | r # _ \<Rightarrow> max (length header) (length r))"
  have hw: "length header \<le> w"
    by (simp add: w_def split: list.splits)
  from assms f have ok: "\<not> list_ex (\<lambda>r. w < length r) body"
    and df: "df = \<lparr>columns = header,
                    rows = map (\<lambda>r. map read_cell
                             (drop (w - length header) (r @ replicate (w - length r) ''''))) body\<rparr>"
    by (auto simp: read_csv_def Let_def w_def split: if_splits)
  from ok have "\<forall>r\<in>set body. length r \<le> w"
    by (auto simp: list_ex_iff not_less)
  with hw show ?thesis
    by (auto simp: df)
qed

lemma setitem_rect:
  assumes "\<forall>r\<in>set (rows df). length r = length (columns df)"
  shows "\<forall>r\<in>set (rows (setitem df name vals)). length r = length (columns (setitem df name vals))"
  using assms by (auto simp: setitem_def dest!: set_zip_leftD)



text \<open>
  \<^verbatim>\<open>parse_dates\<close> rewrites the cells of one column and leaves the missing values of that
  column as they are.
\<close>

lemma parse_dates_rows:
  assumes "parse_dates to_date name df = Inr df'"
  shows "\<exists>k. df' = df\<lparr>rows := map (\<lambda>r. r[index_of name (columns df) := k (cell_at df r name)]) (rows df)\<rparr>
           \<and> (\<forall>r\<in>set (rows df). k (cell_at df r name) = NaN \<longleftrightarrow> cell_at df r name = NaN)"
proof -
  from assms obtain s where g: "getitem df name = Inr s"
    by (auto simp: parse_dates_def split: sum.splits)
  then have n: "name \<in> set (columns df)" and s: "s = map (\<lambda>r. cell_at df r name) (rows df)"
    by (auto dest: getitem_Inr)
  show ?thesis
  proof (cases "list_all (\<lambda>c. c = NaN \<or> to_datetime to_date c \<noteq> NaN) s")
    case True
    with assms g have "df' = setitem df name (map (to_datetime to_date) s)"
      by (simp add: parse_dates_def)
    then have "df' = df\<lparr>rows := map (\<lambda>r. r[index_of name (columns df) := to_datetime to_date (cell_at df r name)]) (rows df)\<rparr>"
      unfolding s by (simp only: setitem_existing [OF n])
    moreover have "\<forall>r\<in>set (rows df). to_datetime to_date (cell_at df r name) = NaN \<longleftrightarrow> cell_at df r name = NaN"
      using True unfolding s by (auto simp: list_all_iff)
    ultimately show ?thesis by blast
  next
    case False
    with assms g have "df' = df"
      by (simp add: parse_dates_def)
    then have "df' = df\<lparr>rows := map (\<lambda>r. r[index_of name (columns df) := id (cell_at df r name)]) (rows df)\<rparr>"
      by (simp add: cell_at_def update_cell_of)
    moreover have "\<forall>r\<in>set (rows df). id (cell_at df r name) = NaN \<longleftrightarrow> cell_at df r name = NaN"
      by simp
    ultimately show ?thesis by blast
  qed
qed

section \<open>Loading the store\<close>


lemma load_data_try_non_null:
  assumes "load_data_try to_date to_num f = Inr df"
  shows "\<forall>r\<in>set (rows df). NaN \<notin> set r"
  using assms
  by (auto simp: load_data_try_def dropna_def split: sum.splits)

lemma length5:
  "length r = 5 \<Longrightarrow> \<exists>a b c d e. r = [a, b, c, d, e]"
  by (auto simp: length_Suc_conv eval_nat_numeral)

lemma read_csv_canonical:
  assumes "\<forall>r\<in>set body. length r = 5"
  shows "read_csv (Some (canonical # body))
           = Inr \<lparr>columns = canonical, rows = map (map read_cell) body\<rparr>"
proof -
  have w: "(case body of [] \<Rightarrow> length canonical | r # _ \<Rightarrow> max (length canonical) (length r)) = 5"
    using assms by (cases body) (simp_all add: canonical_def)
  have "\<not> list_ex (\<lambda>r. 5 < length r) body"
    using assms by (simp add: list_ex_iff)
  moreover have "map (\<lambda>r. map read_cell (drop (5 - length canonical) (r @ replicate (5 - length r) ''''))) body
          = map (map read_cell) body"
    using assms by (simp add: canonical_def)
  ultimately show ?thesis
    by (simp add: read_csv_def w Let_def)
qed

lemma kept_row:
  assumes "k (read_cell a) = NaN \<longleftrightarrow> read_cell a = NaN"
  shows "(NaN \<notin> set ([k (read_cell a), read_cell b, read_cell c, read_cell d,
                       to_numeric to_num (read_cell e)]))
         = kept to_num [a, b, c, d, e]"
  using assms
  by (auto simp: kept_def read_cell_def split: option.splits)

text \<open>
  On a data file with the canonical header and five fields in each record, \<open>load_data\<close>
  returns as many rows as there are records without a missing value in any field and with
  a numeric Amount.
\<close>

lemma load_data_canonical_rows:
  assumes len: "\<forall>r\<in>set body. length r = 5"
  shows "length (rows (load_data to_date to_num (Some (canonical # body))))
           = length (filter (kept to_num) body)"
proof -
  define df0 where "df0 = \<lparr>columns = canonical, rows = map (map read_cell) body\<rparr>"
  have r0: "read_csv (Some (canonical # body)) = Inr df0"
    unfolding df0_def by (rule read_csv_canonical [OF len])
  have c0: "columns df0 = canonical" and rows0: "rows df0 = map (map read_cell) body"
    by (simp_all add: df0_def)
  have "getitem df0 ''Date'' = Inr (map (\<lambda>r. cell_at df0 r ''Date'') (rows df0))"
    by (simp add: getitem_def c0 canonical_def)
  then have "\<exists>df1. parse_dates to_date ''Date'' df0 = Inr df1"
    by (simp add: parse_dates_def)
  then obtain df1 where p: "parse_dates to_date ''Date'' df0 = Inr df1" ..
  from parse_dates_rows [OF p] obtain k where
    df1: "df1 = df0\<lparr>rows := map (\<lambda>r. r[index_of ''Date'' (columns df0) := k (cell_at df0 r ''Date'')]) (rows df0)\<rparr>"
    and knull: "\<forall>r\<in>set (rows df0). k (cell_at df0 r ''Date'') = NaN \<longleftrightarrow> cell_at df0 r ''Date'' = NaN"
    by blast
  have c1: "columns df1 = canonical"
    by (simp add: df1 c0)
  have a1: "''Amount'' \<in> set (columns df1)"
    by (simp add: c1 canonical_def)
  have g1: "getitem df1 ''Amount'' = Inr (map (\<lambda>r. cell_at df1 r ''Amount'') (rows df1))"
    by (simp add: getitem_def c1 canonical_def)
  define G where "G = (\<lambda>r. r[index_of ''Amount'' (columns df1) := to_numeric to_num (cell_at df1 r ''Amount'')])"
  define H where "H = (\<lambda>r. r[index_of ''Date'' (columns df0) := k (cell_at df0 r ''Date'')])"
  have "load_data_try to_date to_num (Some (canonical # body))
          = Inr (dropna (df1\<lparr>rows := map G (rows df1)\<rparr>))"
    unfolding G_def
    by (simp add: load_data_try_def r0 p g1 setitem_existing [OF a1] del: map_map)
  then have res: "rows (load_data to_date to_num (Some (canonical # body)))
          = filter (\<lambda>r. NaN \<notin> set r) (map (G \<circ> H \<circ> map read_cell) body)"
    by (simp add: load_data_def dropna_def df1 rows0 H_def o_assoc)
  have eq: "(NaN \<notin> set ((G \<circ> H \<circ> map read_cell) r)) = kept to_num r" if "r \<in> set body" for r
  proof -
    from that len obtain a b c d e where r: "r = [a, b, c, d, e]"
      by (auto dest!: length5)
    have kn: "k (read_cell a) = NaN \<longleftrightarrow> read_cell a = NaN"
      using knull that by (auto simp: r rows0 c0 cell_at_def cell_of_def canonical_def)
    have "(G \<circ> H \<circ> map read_cell) r
            = [k (read_cell a), read_cell b, read_cell c, read_cell d, to_numeric to_num (read_cell e)]"
      by (simp add: G_def H_def r c0 c1 canonical_def cell_at_def cell_of_def)
    then show ?thesis
      using kn kept_row [of k a b c d to_num e] by (simp add: r)
  qed
  have "length (filter (\<lambda>r. NaN \<notin> set r) (map (G \<circ> H \<circ> map read_cell) body))
        = length (filter (kept to_num) body)"
    using eq by (simp add: filter_map o_def cong: filter_cong)
  with res show ?thesis by simp
qed

lemma getitem_Inr_iff: "(\<exists>s. getitem df n = Inr s) \<longleftrightarrow> count_list (columns df) n = 1"
proof -
  have "n \<in> set (columns df) \<longleftrightarrow> count_list (columns df) n \<noteq> 0"
    by (simp add: count_list_0_iff)
  then show ?thesis
    by (auto simp: getitem_def)
qed










text \<open>
  Claim C10. Every row \<open>load_data\<close> returns is free of missing values in all its columns;
  and on a data file with the canonical header and five-field records, a record with a
  missing value in any field (an empty Category or Description as well) gives no row: the
  rows returned are as many as the records that are \<open>kept\<close>.
\<close>

theorem load_data_rows_non_null:
  "(\<forall>r\<in>set (rows (load_data to_date to_num f)). \<forall>c\<in>set r. c \<noteq> NaN)
   \<and> ((\<forall>r\<in>set body. length r = 5) \<longrightarrow>
        length (rows (load_data to_date to_num (Some (canonical # body))))
          = length (filter (kept to_num) body))"
proof -
  have "\<forall>r\<in>set (rows (load_data to_date to_num f)). \<forall>c\<in>set r. c \<noteq> NaN"
    using load_data_try_non_null [of to_date to_num f]
    by (cases "load_data_try to_date to_num f") (auto simp: load_data_def)
  then show ?thesis
    using load_data_canonical_rows [of body to_date to_num] by blast
qed

theorem load_data_rows_non_null_witness:
  "length (rows (load_data iso_date decimal_literal
      (Some [canonical,
             [''2024-01-01'', ''Income'', ''Salary'', ''pay'', ''1000.0''],
             [''2024-01-02'', ''Expense'', '''', ''lunch'', ''12.5''],
             [''2024-01-03'', ''Expense'', ''Food'', '''', ''7''],
             [''2024-01-04'', ''Expense'', ''Food'', ''dinner'', ''abc'']]))) = 1"
proof -
  have "length (filter (kept decimal_literal)
            [[''2024-01-01'', ''Income'', ''Salary'', ''pay'', ''1000.0''],
             [''2024-01-02'', ''Expense'', '''', ''lunch'', ''12.5''],
             [''2024-01-03'', ''Expense'', ''Food'', '''', ''7''],
             [''2024-01-04'', ''Expense'', ''Food'', ''dinner'', ''abc'']]) = 1"
    by (simp add: kept_def na_values_def decimal_literal_def unsigned_literal_def
          number_def digit_def)
  then show ?thesis
    using load_data_rows_non_null [of iso_date decimal_literal None
            "[[''2024-01-01'', ''Income'', ''Salary'', ''pay'', ''1000.0''],
             [''2024-01-02'', ''Expense'', '''', ''lunch'', ''12.5''],
             [''2024-01-03'', ''Expense'', ''Food'', '''', ''7''],
             [''2024-01-04'', ''Expense'', ''Food'', ''dinner'', ''abc'']]"]
    by simp
qed

text \<open>
  A transaction saved with a description and loaded again is the one row of the table.
\<close>

lemma save_then_load_example:
  "load_data iso_date decimal_literal
     (save_transaction ''2024-01-01'' ''Income'' ''Salary'' ''pay'' ''1000.0'' (initialize None))
   = \<lparr>columns = canonical,
      rows = [[Date (Timestamp 2024 1 1), Str ''Income'', Str ''Salary'', Str ''pay'', Num 1000]]\<rparr>"
  by (simp add: load_data_def load_data_try_def read_csv_def parse_dates_def getitem_def
        setitem_def dropna_def cell_at_def cell_of_def read_cell_def na_values_def
        save_transaction_def initialize_def canonical_def
        iso_date_def decimal_literal_def unsigned_literal_def number_def digit_def)

text \<open>
  Claim C1, at the input of the specification's own example. A transaction saved with the
  empty description (the form's text field left blank) is written as an empty field,
  read back as a missing value and dropped with its whole row: after
  \<open>save_transaction\<close> on the freshly initialised store, \<open>load_data\<close> returns no row at
  all, whatever the date, type, category and amount are.
\<close>

theorem save_then_load_empty_description:
  "rows (load_data to_date to_num
           (save_transaction date t_type category '''' amount (initialize None))) = []"
proof -
  have "length (rows (load_data to_date to_num
           (Some (canonical # [[date, t_type, category, '''', amount]])))) =
        length (filter (kept to_num) [[date, t_type, category, '''', amount]])"
    by (rule load_data_canonical_rows) simp
  then show ?thesis
    by (simp add: save_transaction_def initialize_def kept_def na_values_def)
qed

text \<open>
  Claim C2, at a data file with one record whose Amount is numeric and whose Category is
  empty: the record is dropped although its Amount is a number, so the table has no row
  where the claim counts one.
\<close>

theorem load_data_drops_numeric_amount:
  "rows (load_data iso_date decimal_literal
      (Some [canonical, [''2024-01-02'', ''Expense'', '''', ''lunch'', ''12.5'']])) = []
   \<and> to_numeric decimal_literal (read_cell ''12.5'') = Num 12.5"
proof -
  have "length (rows (load_data iso_date decimal_literal
           (Some (canonical # [[''2024-01-02'', ''Expense'', '''', ''lunch'', ''12.5'']])))) =
        length (filter (kept decimal_literal) [[''2024-01-02'', ''Expense'', '''', ''lunch'', ''12.5'']])"
    by (rule load_data_canonical_rows) simp
  then show ?thesis
    by (simp add: kept_def na_values_def read_cell_def decimal_literal_def
          unsigned_literal_def number_def digit_def)
qed

section \<open>Normalizing an upload\<close>

lemma index_of_less: "x \<in> set xs \<Longrightarrow> index_of x xs < length xs"
  by (induction xs) auto

lemma nth_index_of: "x \<in> set xs \<Longrightarrow> xs ! index_of x xs = x"
  by (induction xs) auto

lemma index_of_eq_iff:
  "x \<in> set xs \<Longrightarrow> y \<in> set xs \<Longrightarrow> index_of x xs = index_of y xs \<longleftrightarrow> x = y"
  by (metis nth_index_of)

lemma index_of_append_in: "x \<in> set xs \<Longrightarrow> index_of x (xs @ ys) = index_of x xs"
  by (induction xs) auto

lemma index_of_append_new: "x \<notin> set xs \<Longrightarrow> index_of x (xs @ [x]) = length xs"
  by (induction xs) auto

lemma index_of_map:
  "\<forall>c\<in>set xs. f c = y \<longleftrightarrow> c = x \<Longrightarrow> index_of y (map f xs) = index_of x xs"
  by (induction xs) auto

lemma in_set_map_fixed: "x \<in> set xs \<Longrightarrow> f x = y \<Longrightarrow> y \<in> set (map f xs)"
  by auto

lemma in_set_mapD: "y \<in> set (map f xs) \<Longrightarrow> \<exists>x\<in>set xs. f x = y"
  by auto

text \<open>A lower-cased label has no capital letter, so it is none of the canonical labels.\<close>

lemma lower_char_neq:
  "lower_char c \<noteq> CHR ''T''" "lower_char c \<noteq> CHR ''A''" "lower_char c \<noteq> CHR ''D''"
  "lower_char c \<noteq> CHR ''C''"
  by (simp_all add: lower_char_def)

lemma lower_neq:
  "lower s \<noteq> ''Type''" "lower s \<noteq> ''Amount''" "lower s \<noteq> ''Date''"
  "lower s \<noteq> ''Category''" "lower s \<noteq> ''Description''"
proof -
  have "CHR ''T'' \<notin> set (lower s)" "CHR ''A'' \<notin> set (lower s)" "CHR ''D'' \<notin> set (lower s)"
    "CHR ''C'' \<notin> set (lower s)"
    by (simp_all add: lower_def image_iff lower_char_neq [symmetric])
  then show "lower s \<noteq> ''Type''" "lower s \<noteq> ''Amount''" "lower s \<noteq> ''Date''"
    "lower s \<noteq> ''Category''" "lower s \<noteq> ''Description''"
    by auto
qed

lemma to_numeric_cases: "to_numeric to_num c = NaN \<or> (\<exists>a. to_numeric to_num c = Num a)"
  by (cases c) (auto split: option.splits)

lemma derive_type_Num:
  "derive_type (Num a) = Str (if 0 \<le> a then ''Income'' else ''Expense'')"
  by (simp add: derive_type_def)

lemma rename_category_fn:
  "(case map_of [(''category'', ''Category'')] c of None \<Rightarrow> c | Some new \<Rightarrow> new)
     = (if c = ''category'' then ''Category'' else c)"
  by simp

lemma rename_required_fn:
  "(case map_of [(''date'', ''Date''), (''amount'', ''Amount'')] c of None \<Rightarrow> c | Some new \<Rightarrow> new)
     = (if c = ''date'' then ''Date'' else if c = ''amount'' then ''Amount'' else c)"
  by simp

text \<open>
  Setting a column other than Amount and Type, and relabelling the category column, keep
  a table \<open>typed\<close>.
\<close>

lemma typed_setitem:
  assumes t: "typed df" and n: "name \<noteq> ''Amount''" "name \<noteq> ''Type''"
  shows "typed (setitem df name vals)"
proof (cases "name \<in> set (columns df)")
  case True
  let ?i = "index_of name (columns df)"
  have cols: "columns (setitem df name vals) = columns df"
    and rws: "rows (setitem df name vals) = map2 (\<lambda>r v. r[?i := v]) (rows df) vals"
    using True by (simp_all add: setitem_def)
  from t have A: "''Amount'' \<in> set (columns df)" and T: "''Type'' \<in> set (columns df)"
    by (simp_all add: typed_def)
  have iA: "?i \<noteq> index_of ''Amount'' (columns df)" and iT: "?i \<noteq> index_of ''Type'' (columns df)"
    using True A T n by (simp_all add: index_of_eq_iff)
  have keep: "cell_at (setitem df name vals) (r[?i := v]) ''Amount'' = cell_at df r ''Amount''
            \<and> cell_at (setitem df name vals) (r[?i := v]) ''Type'' = cell_at df r ''Type''" for r v
    using iA iT by (simp add: cell_at_def cell_of_def cols)
  show ?thesis
    unfolding typed_def
  proof (intro conjI ballI)
    fix r' assume "r' \<in> set (rows (setitem df name vals))"
    then obtain r v where r: "r \<in> set (rows df)" and r': "r' = r[?i := v]"
      by (auto simp: rws dest: set_zip_leftD)
    from t r show "length r' = length (columns (setitem df name vals))"
      by (simp add: typed_def cols r')
    from t r show "\<exists>a. cell_at (setitem df name vals) r' ''Amount'' = Num a
             \<and> cell_at (setitem df name vals) r' ''Type'' = Str (if 0 \<le> a then ''Income'' else ''Expense'')"
      unfolding r' using keep [of r v] by (simp add: typed_def)
  qed (simp_all add: cols A T)
next
  case False
  have cols: "columns (setitem df name vals) = columns df @ [name]"
    and rws: "rows (setitem df name vals) = map2 (\<lambda>r v. r @ [v]) (rows df) vals"
    using False by (simp_all add: setitem_def)
  from t have A: "''Amount'' \<in> set (columns df)" and T: "''Type'' \<in> set (columns df)"
    by (simp_all add: typed_def)
  show ?thesis
    unfolding typed_def
  proof (intro conjI ballI)
    fix r' assume "r' \<in> set (rows (setitem df name vals))"
    then obtain r v where r: "r \<in> set (rows df)" and r': "r' = r @ [v]"
      by (auto simp: rws dest: set_zip_leftD)
    from t r have len: "length r = length (columns df)"
      by (simp add: typed_def)
    then show "length r' = length (columns (setitem df name vals))"
      by (simp add: cols r')
    have "cell_at (setitem df name vals) r' ''Amount'' = cell_at df r ''Amount''"
      "cell_at (setitem df name vals) r' ''Type'' = cell_at df r ''Type''"
      using index_of_less [OF A] index_of_less [OF T] len
      by (simp_all add: cell_at_def cell_of_def cols r' index_of_append_in A T nth_append)
    with t r show "\<exists>a. cell_at (setitem df name vals) r' ''Amount'' = Num a
             \<and> cell_at (setitem df name vals) r' ''Type'' = Str (if 0 \<le> a then ''Income'' else ''Expense'')"
      by (simp add: typed_def)
  qed (simp_all add: cols A T)
qed

lemma typed_rename_category:
  assumes "typed df"
  shows "typed (rename [(''category'', ''Category'')] df)"
proof -
  define f where "f = (\<lambda>c. if c = ''category'' then ''Category'' else c)"
  have cols: "columns (rename [(''category'', ''Category'')] df) = map f (columns df)"
    and rws: "rows (rename [(''category'', ''Category'')] df) = rows df"
    unfolding f_def by (simp_all add: rename_def rename_category_fn)
  have fA: "f c = ''Amount'' \<longleftrightarrow> c = ''Amount''" and fT: "f c = ''Type'' \<longleftrightarrow> c = ''Type''" for c
    by (simp_all add: f_def)
  have iA: "index_of ''Amount'' (map f (columns df)) = index_of ''Amount'' (columns df)"
    by (rule index_of_map) (simp add: fA)
  have iT: "index_of ''Type'' (map f (columns df)) = index_of ''Type'' (columns df)"
    by (rule index_of_map) (simp add: fT)
  from assms have A: "''Amount'' \<in> set (columns df)" and T: "''Type'' \<in> set (columns df)"
    by (simp_all add: typed_def)
  have A': "''Amount'' \<in> set (map f (columns df))"
    by (rule in_set_map_fixed [OF A]) (simp add: f_def)
  have T': "''Type'' \<in> set (map f (columns df))"
    by (rule in_set_map_fixed [OF T]) (simp add: f_def)
  have c: "cell_at (rename [(''category'', ''Category'')] df) r ''Amount'' = cell_at df r ''Amount''"
    "cell_at (rename [(''category'', ''Category'')] df) r ''Type'' = cell_at df r ''Type''" for r
    by (simp_all only: cell_at_def cols iA iT)
  show ?thesis
    using assms A' T'
    unfolding typed_def c rws cols
    by simp
qed

text \<open>The table that \<open>analyze_uploaded_file\<close> hands on is \<open>typed\<close>.\<close>

lemma analyze_uploaded_file_typed:
  assumes "analyze_uploaded_file to_date to_num uploaded_file = Normalized df"
  shows "typed df"
proof -
  from assms obtain df0 where r0: "read_csv (Some uploaded_file) = Inr df0"
    by (auto simp: analyze_uploaded_file_def split: sum.splits)
  define df1 where "df1 = df0\<lparr>columns := map lower (columns df0)\<rparr>"
  have rect1: "\<forall>r\<in>set (rows df1). length r = length (columns df1)"
    using read_csv_rect [OF r0] by (simp add: df1_def)
  have low: "\<forall>c\<in>set (columns df1). c \<noteq> ''Type'' \<and> c \<noteq> ''Amount'' \<and> c \<noteq> ''Date''"
    using lower_neq by (auto simp: df1_def)
  from assms r0 have in1: "''date'' \<in> set (columns df1)" "''amount'' \<in> set (columns df1)"
    by (auto simp: analyze_uploaded_file_def df1_def Let_def split: if_splits)
  from assms r0 in1 obtain date where g1: "getitem df1 ''date'' = Inr date"
    by (auto simp: analyze_uploaded_file_def df1_def Let_def split: sum.splits)
  define df2 where "df2 = setitem df1 ''date'' (map (to_datetime to_date) date)"
  have c2: "columns df2 = columns df1"
    using in1 by (simp add: df2_def setitem_def)
  have rect2: "\<forall>r\<in>set (rows df2). length r = length (columns df2)"
    unfolding df2_def by (rule setitem_rect [OF rect1])
  from assms r0 in1 g1 obtain amount where g2: "getitem df2 ''amount'' = Inr amount"
    by (auto simp: analyze_uploaded_file_def df1_def df2_def Let_def split: sum.splits)
  then have amount: "amount = map (\<lambda>r. cell_at df2 r ''amount'') (rows df2)"
    by (auto dest: getitem_Inr)
  define df3 where "df3 = setitem df2 ''amount'' (map (to_numeric to_num) amount)"
  define j where "j = index_of ''amount'' (columns df1)"
  have j: "j < length (columns df1)"
    using in1 by (simp add: j_def index_of_less)
  have df3: "df3 = df2\<lparr>rows := map (\<lambda>r. r[j := to_numeric to_num (cell_at df2 r ''amount'')]) (rows df2)\<rparr>"
    unfolding df3_def amount j_def c2 [symmetric]
    by (rule setitem_existing) (simp add: c2 in1)
  have c3: "columns df3 = columns df1"
    by (simp add: df3 c2)
  define df4 where "df4 = dropna_subset [''date'', ''amount''] df3"
  define df5 where "df5 = rename [(''date'', ''Date''), (''amount'', ''Amount'')] df4"
  have r5: "rows df5 = filter (\<lambda>r. list_all (\<lambda>n. cell_at df3 r n \<noteq> NaN) [''date'', ''amount'']) (rows df3)"
    by (simp add: df5_def df4_def rename_def dropna_subset_def)
  define f where "f = (\<lambda>c. if c = ''date'' then ''Date'' else if c = ''amount'' then ''Amount'' else c)"
  have c5: "columns df5 = map f (columns df1)"
    unfolding f_def by (simp add: df5_def df4_def rename_def dropna_subset_def c3 rename_required_fn)
  have fA: "(f c = ''Amount'') = (c = ''amount'')" if "c \<noteq> ''Amount''" for c
    using that by (simp add: f_def)
  have fT: "f c \<noteq> ''Type''" if "c \<noteq> ''Type''" for c
    using that by (simp add: f_def)
  have jA: "index_of ''Amount'' (columns df5) = j"
    unfolding c5 j_def by (rule index_of_map) (simp add: fA low)
  have A5: "''Amount'' \<in> set (columns df5)"
    unfolding c5 by (rule in_set_map_fixed [OF in1(2)]) (simp add: f_def)
  have T5: "''Type'' \<notin> set (columns df5)"
  proof
    assume "''Type'' \<in> set (columns df5)"
    then have "''Type'' \<in> set (map f (columns df1))"
      by (simp only: c5)
    from in_set_mapD [OF this] obtain c where c: "c \<in> set (columns df1)" and "f c = ''Type''"
      by blast
    moreover from low c have "c \<noteq> ''Type''"
      by blast
    ultimately show False
      using fT [of c] by blast
  qed
  have rect5: "\<forall>r\<in>set (rows df5). length r = length (columns df5)"
    using rect2 by (auto simp: r5 c5 df3 c2)
  have num5: "\<exists>a. cell_at df5 r ''Amount'' = Num a" if "r \<in> set (rows df5)" for r
  proof -
    from that obtain r2 where r2: "r2 \<in> set (rows df2)"
      and r: "r = r2[j := to_numeric to_num (cell_at df2 r2 ''amount'')]"
      and nn: "cell_at df3 r ''amount'' \<noteq> NaN"
      by (auto simp: r5 df3)
    have "length r2 = length (columns df1)"
      using rect2 r2 by (simp add: c2)
    with j have "cell_of r j = to_numeric to_num (cell_at df2 r2 ''amount'')"
      by (simp add: r cell_of_def)
    moreover have "cell_at df3 r ''amount'' = cell_of r j"
      by (simp add: cell_at_def c3 j_def)
    moreover have "cell_at df5 r ''Amount'' = cell_of r j"
      by (simp add: cell_at_def jA)
    ultimately show ?thesis
      using nn to_numeric_cases [of to_num "cell_at df2 r2 ''amount''"] by auto
  qed
  have "count_list (map f cs) ''Amount'' = count_list cs ''amount''"
    if "\<forall>c\<in>set cs. c \<noteq> ''Amount''" for cs
    using that by (induction cs) (simp_all add: fA)
  then have "count_list (columns df5) ''Amount'' = count_list (columns df1) ''amount''"
    unfolding c5 using low by simp
  then have g5: "getitem df5 ''Amount'' = Inr (map (\<lambda>r. cell_at df5 r ''Amount'') (rows df5))"
    using g2 A5 by (auto simp: getitem_def c2 split: if_splits)
  define df6 where "df6 = setitem df5 ''Type'' (map derive_type (map (\<lambda>r. cell_at df5 r ''Amount'') (rows df5)))"
  have c6: "columns df6 = columns df5 @ [''Type'']"
    and r6: "rows df6 = map (\<lambda>r. r @ [derive_type (cell_at df5 r ''Amount'')]) (rows df5)"
    using T5 by (simp_all add: df6_def setitem_def map2_map_same)
  have t6: "typed df6"
    unfolding typed_def
  proof (intro conjI ballI)
    fix r' assume "r' \<in> set (rows df6)"
    then obtain r where r: "r \<in> set (rows df5)" and r': "r' = r @ [derive_type (cell_at df5 r ''Amount'')]"
      by (auto simp: r6)
    from rect5 r have len: "length r = length (columns df5)" by simp
    then show "length r' = length (columns df6)"
      by (simp add: r' c6)
    from num5 [OF r] obtain a where a: "cell_at df5 r ''Amount'' = Num a" ..
    have "cell_at df6 r' ''Amount'' = cell_at df5 r ''Amount''"
      using index_of_less [OF A5] len
      by (simp add: cell_at_def cell_of_def c6 r' index_of_append_in A5 nth_append)
    moreover have "cell_at df6 r' ''Type'' = derive_type (cell_at df5 r ''Amount'')"
      using len by (simp add: cell_at_def cell_of_def c6 r' index_of_append_new T5 nth_append)
    ultimately show "\<exists>a. cell_at df6 r' ''Amount'' = Num a
        \<and> cell_at df6 r' ''Type'' = Str (if 0 \<le> a then ''Income'' else ''Expense'')"
      by (simp add: a derive_type_Num)
  qed (simp_all add: c6 A5)
  define df7 where "df7 = (if ''category'' \<notin> set (columns df6)
       then setitem_scalar df6 ''Category'' (Str ''Uncategorized'')
       else rename [(''category'', ''Category'')] df6)"
  have t7: "typed df7"
    unfolding df7_def setitem_scalar_def
    using t6 by (simp add: typed_setitem typed_rename_category)
  define df8 where "df8 = (if ''description'' \<notin> set (columns df7)
       then setitem_scalar df7 ''Description'' (Str '''') else df7)"
  have t8: "typed df8"
    unfolding df8_def setitem_scalar_def
    using t7 by (simp add: typed_setitem)
  have "analyze_uploaded_file to_date to_num uploaded_file = Normalized df8"
    unfolding analyze_uploaded_file_def Let_def
    using in1
    by (simp add: r0 g1 g2 g5 df1_def [symmetric] df2_def [symmetric] df3_def [symmetric]
          df4_def [symmetric] df5_def [symmetric] df6_def [symmetric] df7_def df8_def
          del: map_map)
  with assms t8 show ?thesis by simp
qed

lemmas eval_defs =
  analyze_uploaded_file_def read_csv_def getitem_def setitem_def setitem_scalar_def
  dropna_subset_def rename_def cell_at_def cell_of_def read_cell_def na_values_def
  derive_type_def lower_def lower_char_def
  iso_date_def decimal_literal_def unsigned_literal_def number_def digit_def

text \<open>An upload whose own type labels contradict the signs of its amounts.\<close>

lemma analyze_example_type_column:
  "analyze_uploaded_file iso_date decimal_literal
     [[''Date'', ''Amount'', ''Type''],
      [''2024-02-01'', ''-50'', ''Income''],
      [''2024-02-02'', ''20'', ''Expense'']]
   = Normalized \<lparr>columns = [''Date'', ''Amount'', ''type'', ''Type'', ''Category'', ''Description''],
       rows = [[Date (Timestamp 2024 2 1), Num (- 50), Str ''Income'', Str ''Expense'',
                Str ''Uncategorized'', Str ''''],
               [Date (Timestamp 2024 2 2), Num 20, Str ''Expense'', Str ''Income'',
                Str ''Uncategorized'', Str '''']]\<rparr>"
  by (simp add: eval_defs Let_def)

text \<open>
  Claim C3. In every table the normalizer hands on, each row carries a number under Amount
  and, under Type, the text Income when that number is at least 0 and Expense when it is
  below 0. This holds for every upload, whatever columns it has: a type column of the
  upload is lower-cased to \<^verbatim>\<open>type\<close> and never read, and the derived column is the one
  labelled \<^verbatim>\<open>Type\<close>.
\<close>

theorem derived_type_from_sign:
  assumes "analyze_uploaded_file to_date to_num uploaded_file = Normalized df"
  shows "''Type'' \<in> set (columns df)
     \<and> (\<forall>r\<in>set (rows df). \<exists>a. cell_at df r ''Amount'' = Num a
           \<and> cell_at df r ''Type'' = Str (if 0 \<le> a then ''Income'' else ''Expense''))"
  using analyze_uploaded_file_typed [OF assms] by (simp add: typed_def)

theorem derived_type_from_sign_witness:
  "analyze_uploaded_file iso_date decimal_literal
     [[''Date'', ''Amount'', ''Type''],
      [''2024-02-01'', ''-50'', ''Income''],
      [''2024-02-02'', ''20'', ''Expense'']]
   = Normalized \<lparr>columns = [''Date'', ''Amount'', ''type'', ''Type'', ''Category'', ''Description''],
       rows = [[Date (Timestamp 2024 2 1), Num (- 50), Str ''Income'', Str ''Expense'',
                Str ''Uncategorized'', Str ''''],
               [Date (Timestamp 2024 2 2), Num 20, Str ''Expense'', Str ''Income'',
                Str ''Uncategorized'', Str '''']]\<rparr>
   \<and> (\<exists>a. cell_at \<lparr>columns = [''Date'', ''Amount'', ''type'', ''Type'', ''Category'', ''Description''],
                   rows = [[Date (Timestamp 2024 2 1), Num (- 50), Str ''Income'', Str ''Expense'',
                            Str ''Uncategorized'', Str ''''],
                           [Date (Timestamp 2024 2 2), Num 20, Str ''Expense'', Str ''Income'',
                            Str ''Uncategorized'', Str '''']]\<rparr>
               [Date (Timestamp 2024 2 1), Num (- 50), Str ''Income'', Str ''Expense'',
                Str ''Uncategorized'', Str ''''] ''Amount'' = Num a
          \<and> cell_at \<lparr>columns = [''Date'', ''Amount'', ''type'', ''Type'', ''Category'', ''Description''],
                   rows = [[Date (Timestamp 2024 2 1), Num (- 50), Str ''Income'', Str ''Expense'',
                            Str ''Uncategorized'', Str ''''],
                           [Date (Timestamp 2024 2 2), Num 20, Str ''Expense'', Str ''Income'',
                            Str ''Uncategorized'', Str '''']]\<rparr>
               [Date (Timestamp 2024 2 1), Num (- 50), Str ''Income'', Str ''Expense'',
                Str ''Uncategorized'', Str ''''] ''Type''
              = Str (if 0 \<le> a then ''Income'' else ''Expense''))"
  using derived_type_from_sign [OF analyze_example_type_column] analyze_example_type_column
  by simp

lemma schema_message_names:
  "schema_message = ''Uploaded CSV must contain '' @ [CHR 0x27] @ ''Date'' @ [CHR 0x27]
       @ '' and '' @ [CHR 0x27] @ ''Amount'' @ [CHR 0x27] @ '' columns.''"
  by (simp add: schema_message_def)

lemma count_one_mem:
  assumes "count_list xs x = 1"
  shows "x \<in> set xs"
proof (rule ccontr)
  assume "x \<notin> set xs"
  then have "count_list xs x = 0" by simp
  with assms show False by simp
qed

lemma count_list_lower_labels:
  assumes "\<forall>c\<in>set cs. c \<noteq> ''Amount''"
  shows "count_list (map (\<lambda>c. if c = ''date'' then ''Date'' else if c = ''amount'' then ''Amount'' else c) cs)
           ''Amount'' = count_list cs ''amount''"
  using assms by (induction cs) simp_all

text \<open>
  An upload that is read and has, after the lower-casing, one column labelled date and
  one labelled amount is normalized.
\<close>

lemma analyze_uploaded_file_succeeds:
  assumes r0: "read_csv (Some uploaded_file) = Inr df0"
    and d: "count_list (map lower (columns df0)) ''date'' = 1"
    and a: "count_list (map lower (columns df0)) ''amount'' = 1"
  shows "\<exists>df. analyze_uploaded_file to_date to_num uploaded_file = Normalized df"
proof -
  define df1 where "df1 = df0\<lparr>columns := map lower (columns df0)\<rparr>"
  have c1: "columns df1 = map lower (columns df0)"
    by (simp add: df1_def)
  have low: "\<forall>c\<in>set (columns df1). c \<noteq> ''Amount''"
    using lower_neq by (auto simp: df1_def)
  have in1: "''date'' \<in> set (columns df1)" "''amount'' \<in> set (columns df1)"
    using count_one_mem [OF d] count_one_mem [OF a] by (simp_all only: c1)
  from d have "\<exists>s. getitem df1 ''date'' = Inr s"
    by (simp add: getitem_Inr_iff c1)
  then obtain date where g1: "getitem df1 ''date'' = Inr date" ..
  define df2 where "df2 = setitem df1 ''date'' (map (to_datetime to_date) date)"
  have c2: "columns df2 = columns df1"
    using in1 by (simp add: df2_def setitem_def)
  from a have "\<exists>s. getitem df2 ''amount'' = Inr s"
    by (simp add: getitem_Inr_iff c2 c1)
  then obtain amount where g2: "getitem df2 ''amount'' = Inr amount" ..
  define df3 where "df3 = setitem df2 ''amount'' (map (to_numeric to_num) amount)"
  have c3: "columns df3 = columns df1"
    using in1 by (simp add: df3_def setitem_def c2)
  define df4 where "df4 = dropna_subset [''date'', ''amount''] df3"
  define df5 where "df5 = rename [(''date'', ''Date''), (''amount'', ''Amount'')] df4"
  have c5: "columns df5
      = map (\<lambda>c. if c = ''date'' then ''Date'' else if c = ''amount'' then ''Amount'' else c)
          (columns df1)"
    by (simp add: df5_def df4_def rename_def dropna_subset_def c3 rename_required_fn)
  have "count_list (columns df5) ''Amount'' = 1"
    unfolding c5 using count_list_lower_labels [OF low] a by (simp add: c1)
  then have "\<exists>s. getitem df5 ''Amount'' = Inr s"
    by (simp add: getitem_Inr_iff)
  then obtain am where g5: "getitem df5 ''Amount'' = Inr am" ..
  show ?thesis
    unfolding analyze_uploaded_file_def Let_def
    using in1
    by (simp add: r0 g1 g2 g5 df1_def [symmetric] df2_def [symmetric] df3_def [symmetric]
          df4_def [symmetric] df5_def [symmetric])
qed

lemma getitem_repeated:
  "1 < count_list (columns df) n \<Longrightarrow> getitem df n = Inl TypeError"
  using count_list_0_iff [of "columns df" n] by (auto simp: getitem_def)

text \<open>
  Claim C4, amended. An upload that is read and lacks a column labelled date, or one
  labelled amount, in any casing, is answered with the one message of line 113, the same
  whichever column is missing, and with no table. This is the only check the normalizer
  makes itself, but not its only failure: an upload that cannot be read, and one in which
  two columns are labelled date or amount after the lower-casing, end in the report of
  the \<^verbatim>\<open>except\<close> clause, with no table either. Every other upload is normalized.
\<close>

theorem analyze_uploaded_file_outcome:
  "(\<forall>e. read_csv (Some uploaded_file) = Inl e \<longrightarrow>
        analyze_uploaded_file to_date to_num uploaded_file = ProcessingError e)
   \<and> (\<forall>df0. read_csv (Some uploaded_file) = Inr df0 \<longrightarrow>
        (if ''date'' \<notin> set (map lower (columns df0)) \<or> ''amount'' \<notin> set (map lower (columns df0))
         then analyze_uploaded_file to_date to_num uploaded_file = SchemaError schema_message
         else if 1 < count_list (map lower (columns df0)) ''date''
         then analyze_uploaded_file to_date to_num uploaded_file = ProcessingError ValueError
         else if 1 < count_list (map lower (columns df0)) ''amount''
         then analyze_uploaded_file to_date to_num uploaded_file = ProcessingError TypeError
         else \<exists>df. analyze_uploaded_file to_date to_num uploaded_file = Normalized df
                \<and> typed df))"
proof (intro conjI allI impI)
  fix e assume "read_csv (Some uploaded_file) = Inl e"
  then show "analyze_uploaded_file to_date to_num uploaded_file = ProcessingError e"
    by (simp add: analyze_uploaded_file_def)
next
  fix df0 assume r0: "read_csv (Some uploaded_file) = Inr df0"
  let ?cols = "map lower (columns df0)"
  let ?df1 = "df0\<lparr>columns := ?cols\<rparr>"
  consider (missing) "''date'' \<notin> set ?cols \<or> ''amount'' \<notin> set ?cols"
    | (dates) "''date'' \<in> set ?cols" "''amount'' \<in> set ?cols" "1 < count_list ?cols ''date''"
    | (amounts) "''date'' \<in> set ?cols" "''amount'' \<in> set ?cols" "count_list ?cols ''date'' = 1"
        "1 < count_list ?cols ''amount''"
    | (ok) "count_list ?cols ''date'' = 1" "count_list ?cols ''amount'' = 1"
    using count_list_0_iff [of ?cols "''date''"] count_list_0_iff [of ?cols "''amount''"]
    by (cases "count_list ?cols ''date''" "1::nat" rule: linorder_cases;
        cases "count_list ?cols ''amount''" "1::nat" rule: linorder_cases) auto
  then show "if ''date'' \<notin> set ?cols \<or> ''amount'' \<notin> set ?cols
         then analyze_uploaded_file to_date to_num uploaded_file = SchemaError schema_message
         else if 1 < count_list ?cols ''date''
         then analyze_uploaded_file to_date to_num uploaded_file = ProcessingError ValueError
         else if 1 < count_list ?cols ''amount''
         then analyze_uploaded_file to_date to_num uploaded_file = ProcessingError TypeError
         else \<exists>df. analyze_uploaded_file to_date to_num uploaded_file = Normalized df
                \<and> typed df"
  proof cases
    case missing
    then show ?thesis
      by (auto simp: analyze_uploaded_file_def r0 Let_def)
  next
    case dates
    have "getitem ?df1 ''date'' = Inl TypeError"
      using dates(3) by (intro getitem_repeated) simp
    with dates show ?thesis
      by (simp add: analyze_uploaded_file_def r0 Let_def)
  next
    case amounts
    from amounts(3) have "\<exists>s. getitem ?df1 ''date'' = Inr s"
      by (simp add: getitem_Inr_iff)
    then obtain date where g1: "getitem ?df1 ''date'' = Inr date" ..
    have "columns (setitem ?df1 ''date'' (map (to_datetime to_date) date)) = ?cols"
      using amounts(1) by (simp add: setitem_def)
    then have "getitem (setitem ?df1 ''date'' (map (to_datetime to_date) date)) ''amount''
        = Inl TypeError"
      using amounts(4) by (intro getitem_repeated) simp
    with amounts g1 show ?thesis
      by (simp add: analyze_uploaded_file_def r0 Let_def)
  next
    case ok
    from analyze_uploaded_file_succeeds [OF r0 ok] obtain df
      where n: "analyze_uploaded_file to_date to_num uploaded_file = Normalized df" ..
    have t: "typed df"
      by (rule analyze_uploaded_file_typed [OF n])
    have "''date'' \<in> set ?cols" "''amount'' \<in> set ?cols"
      by (rule count_one_mem [OF ok(1)], rule count_one_mem [OF ok(2)])
    with ok n t show ?thesis
      by simp
  qed
qed

theorem analyze_uploaded_file_outcome_witness:
  "analyze_uploaded_file iso_date decimal_literal
     [[''Date'', ''Category''], [''2024-02-01'', ''Food'']] = SchemaError schema_message"
proof -
  have "read_csv (Some [[''Date'', ''Category''], [''2024-02-01'', ''Food'']])
          = Inr \<lparr>columns = [''Date'', ''Category''], rows = [[Str ''2024-02-01'', Str ''Food'']]\<rparr>"
    by (simp add: read_csv_def read_cell_def na_values_def)
  moreover have "''amount'' \<notin> set (map lower [''Date'', ''Category''])"
    by (simp add: lower_def lower_char_def)
  ultimately show ?thesis
    using analyze_uploaded_file_outcome [of "[[''Date'', ''Category''], [''2024-02-01'', ''Food'']]"
        iso_date decimal_literal, THEN conjunct2]
    by simp
qed

text \<open>
  Claim C4 fails in two ways. An upload with both a date and an amount column still fails
  without a table when a second column lower-cases to \<^verbatim>\<open>date\<close>; and the message does not
  tell the missing column: it is the same for an upload without an amount column and for
  one without a date column.
\<close>

theorem hard_failure_with_both_columns:
  "analyze_uploaded_file iso_date decimal_literal
     [[''Date'', ''date'', ''Amount''], [''2024-02-01'', ''2024-02-02'', ''5'']]
     = ProcessingError ValueError
   \<and> set [''date'', ''amount''] \<subseteq> set (map lower [''Date'', ''date'', ''Amount''])
   \<and> analyze_uploaded_file iso_date decimal_literal [[''Date''], [''2024-02-01'']]
     = SchemaError schema_message
   \<and> analyze_uploaded_file iso_date decimal_literal [[''Amount''], [''5'']]
     = SchemaError schema_message"
  by (simp add: eval_defs Let_def)

lemma analyze_example_defaults:
  "analyze_uploaded_file iso_date decimal_literal [[''DATE'', ''AMOUNT''], [''2024-02-01'', ''-50'']]
   = Normalized \<lparr>columns = [''Date'', ''Amount'', ''Type'', ''Category'', ''Description''],
       rows = [[Date (Timestamp 2024 2 1), Num (- 50), Str ''Expense'', Str ''Uncategorized'',
                Str '''']]\<rparr>"
  by (simp add: eval_defs Let_def)

lemma analyze_example_category:
  "analyze_uploaded_file iso_date decimal_literal
     [[''date'', ''amount'', ''CATEGORY''], [''2024-02-01'', ''12.5'', ''Food'']]
   = Normalized \<lparr>columns = [''Date'', ''Amount'', ''Category'', ''Type'', ''Description''],
       rows = [[Date (Timestamp 2024 2 1), Num 12.5, Str ''Food'', Str ''Income'', Str '''']]\<rparr>"
  by (simp add: eval_defs Let_def)

text \<open>
  Claim C6, at an upload that has a Description column. The column is lower-cased and never
  relabelled: the resulting table has a column \<^verbatim>\<open>description\<close> and none labelled
  \<^verbatim>\<open>Description\<close>, where a category column is relabelled \<^verbatim>\<open>Category\<close> (lines 126-127).
  The PDF export of that table, which reads \<^verbatim>\<open>row['Description']\<close>, raises \<^verbatim>\<open>KeyError\<close>.
\<close>

theorem description_column_not_renamed:
  "analyze_uploaded_file iso_date decimal_literal
     [[''Date'', ''Amount'', ''Description''], [''2024-02-01'', ''-50'', ''coffee'']]
   = Normalized \<lparr>columns = [''Date'', ''Amount'', ''description'', ''Type'', ''Category''],
       rows = [[Date (Timestamp 2024 2 1), Num (- 50), Str ''coffee'', Str ''Expense'',
                Str ''Uncategorized'']]\<rparr>
   \<and> report_lines \<lparr>columns = [''Date'', ''Amount'', ''description'', ''Type'', ''Category''],
       rows = [[Date (Timestamp 2024 2 1), Num (- 50), Str ''coffee'', Str ''Expense'',
                Str ''Uncategorized'']]\<rparr> = Inl (KeyError ''Description'')"
  by (simp add: eval_defs Let_def report_lines_def canonical_def)

section \<open>Reporting\<close>

lemma count_list_distinct: "distinct xs \<Longrightarrow> count_list xs x \<le> 1"
  by (induction xs) auto

lemma getitem_distinct:
  assumes "distinct (columns df)" and "n \<in> set (columns df)"
  shows "getitem df n = Inr (map (\<lambda>r. cell_at df r n) (rows df))"
  using assms count_list_distinct [of "columns df" n] by (simp add: getitem_def)

lemma check_columns_distinct:
  assumes "distinct (columns df)" and "set ns \<subseteq> set (columns df)"
  shows "check_columns df ns = None"
  using assms(2) by (induction ns) (simp_all add: getitem_distinct [OF assms(1)])

lemma groupby_sum_total:
  assumes "distinct (columns df)" and "set keys \<subseteq> set (columns df)" and "val \<in> set (columns df)"
  shows "\<exists>agg. groupby_sum keys val df = Inr agg"
  using check_columns_distinct [OF assms(1), of "keys @ [val]"] assms(2,3)
  by (simp add: groupby_sum_def Let_def)

lemma remdups_map_inj: "inj f \<Longrightarrow> remdups (map f xs) = map f (remdups xs)"
  by (induction xs) (auto simp: inj_image_mem_iff)

lemma filter_singleton_non_null:
  "filter (\<lambda>k. NaN \<notin> set k) (map (\<lambda>c. [c]) cs) = map (\<lambda>c. [c]) (filter (\<lambda>c. c \<noteq> NaN) cs)"
  by (induction cs) auto

text \<open>
  Grouping by the one column Category: a group for each Category value that is not
  missing, with the sum of the amounts of the rows that carry it.
\<close>

lemma groupby_sum_category:
  assumes "distinct (columns df)" and "''Category'' \<in> set (columns df)"
    and "''Amount'' \<in> set (columns df)"
  shows "groupby_sum [''Category''] ''Amount'' df
     = Inr (map (\<lambda>c. ([c], sum_list (map (\<lambda>r. case cell_at df r ''Amount'' of Num x \<Rightarrow> x | _ \<Rightarrow> 0)
                                     (filter (\<lambda>r. cell_at df r ''Category'' = c) (rows df)))))
             (remdups (filter (\<lambda>c. c \<noteq> NaN) (map (\<lambda>r. cell_at df r ''Category'') (rows df)))))"
proof -
  have chk: "check_columns df ([''Category''] @ [''Amount'']) = None"
    using assms by (intro check_columns_distinct) simp_all
  have inj: "inj (\<lambda>c::cell. [c])"
    by (simp add: inj_def)
  have groups: "remdups (filter (\<lambda>k. NaN \<notin> set k) (map (\<lambda>r. [cell_at df r ''Category'']) (rows df)))
      = map (\<lambda>c. [c]) (remdups (filter (\<lambda>c. c \<noteq> NaN) (map (\<lambda>r. cell_at df r ''Category'') (rows df))))"
    using filter_singleton_non_null [of "map (\<lambda>r. cell_at df r ''Category'') (rows df)"]
    by (simp add: remdups_map_inj [OF inj, symmetric] o_def)
  have amt: "amount_of = (\<lambda>c. case c of Num x \<Rightarrow> x | _ \<Rightarrow> 0)"
    by (rule ext) (simp add: amount_of_def)
  show ?thesis
    unfolding groupby_sum_def chk Let_def
    by (simp add: groups amt o_def)
qed

text \<open>
  Claim C9. For a table that is not empty and has the columns Date, Type and Amount (each
  label once), \<open>plot_summary\<close> returns and always produces the trend figure. It produces
  the category aggregation exactly when the table has a Category column with a value
  that is not missing in some row, and the aggregation is then, for each Category value
  that is not missing, the sum of the Amount of the rows that carry it; otherwise the
  second figure is \<^verbatim>\<open>None\<close>.
\<close>

theorem category_aggregation_iff:
  assumes "\<not> is_empty df" and "distinct (columns df)"
    and "set [''Date'', ''Type'', ''Amount''] \<subseteq> set (columns df)"
  shows "\<exists>trend. plot_summary df
     = Inr (Some (LineChart trend),
            if ''Category'' \<in> set (columns df)
               \<and> (\<exists>r\<in>set (rows df). cell_at df r ''Category'' \<noteq> NaN)
            then Some (PieChart
                   (map (\<lambda>c. ([c], sum_list (map (\<lambda>r. case cell_at df r ''Amount'' of
                                                         Num x \<Rightarrow> x | _ \<Rightarrow> 0)
                                    (filter (\<lambda>r. cell_at df r ''Category'' = c) (rows df)))))
                        (remdups (filter (\<lambda>c. c \<noteq> NaN)
                                   (map (\<lambda>r. cell_at df r ''Category'') (rows df))))))
            else None)"
proof -
  from assms(3) have D: "set [''Date'', ''Type''] \<subseteq> set (columns df)"
    and A: "''Amount'' \<in> set (columns df)"
    by simp_all
  from groupby_sum_total [OF assms(2) D A] obtain trend
    where trend: "groupby_sum [''Date'', ''Type''] ''Amount'' df = Inr trend" ..
  show ?thesis
  proof (cases "''Category'' \<in> set (columns df)")
    case False
    with assms(1) trend show ?thesis
      by (simp add: plot_summary_def)
  next
    case True
    then have g: "getitem df ''Category'' = Inr (map (\<lambda>r. cell_at df r ''Category'') (rows df))"
      by (rule getitem_distinct [OF assms(2)])
    note cat = groupby_sum_category [OF assms(2) True A]
    have n: "list_all (\<lambda>c. c = NaN) (map (\<lambda>r. cell_at df r ''Category'') (rows df))
          \<longleftrightarrow> \<not> (\<exists>r\<in>set (rows df). cell_at df r ''Category'' \<noteq> NaN)"
      by (simp add: list_all_iff)
    show ?thesis
      using assms(1) True trend
      by (simp add: plot_summary_def g n cat)
  qed
qed

lemmas plot_defs =
  plot_summary_def groupby_sum_def is_empty_def getitem_def cell_at_def cell_of_def
  amount_of_def canonical_def Let_def

lemma plot_summary_sample:
  "plot_summary sample
     = Inr (Some (LineChart [([Date (Timestamp 2024 1 1), Str ''Income''], 1000),
                             ([Date (Timestamp 2024 1 2), Str ''Expense''], 12)]),
            Some (PieChart [([Str ''Salary''], 1000)]))"
  by (simp add: sample_def plot_defs)

lemma plot_summary_no_category:
  "plot_summary (sample\<lparr>rows := [[Date (Timestamp 2024 1 2), Str ''Expense'', NaN, Str ''lunch'', Num 12]]\<rparr>)
     = Inr (Some (LineChart [([Date (Timestamp 2024 1 2), Str ''Expense''], 12)]), None)"
  by (simp add: sample_def plot_defs)

theorem category_aggregation_iff_witness:
  "(\<exists>trend. plot_summary sample_categories
      = Inr (Some (LineChart trend),
             Some (PieChart [([Str ''Food''], - 12), ([Str ''Salary''], 1500)])))
   \<and> (\<exists>trend. plot_summary
         (sample_categories\<lparr>rows := [[Date (Timestamp 2024 1 3), Str ''Expense'', NaN, Str ''bus'', Num (- 3)]]\<rparr>)
      = Inr (Some (LineChart trend), None))"
proof -
  let ?df = "sample_categories\<lparr>rows := [[Date (Timestamp 2024 1 3), Str ''Expense'', NaN, Str ''bus'', Num (- 3)]]\<rparr>"
  have "\<not> is_empty sample_categories" "distinct (columns sample_categories)"
    "set [''Date'', ''Type'', ''Amount''] \<subseteq> set (columns sample_categories)"
    by (simp_all add: sample_categories_def is_empty_def canonical_def)
  from category_aggregation_iff [OF this]
  have a: "\<exists>trend. plot_summary sample_categories
      = Inr (Some (LineChart trend),
             Some (PieChart [([Str ''Food''], - 12), ([Str ''Salary''], 1500)]))"
    by (simp add: sample_categories_def canonical_def cell_at_def cell_of_def)
  have "\<not> is_empty ?df" "distinct (columns ?df)"
    "set [''Date'', ''Type'', ''Amount''] \<subseteq> set (columns ?df)"
    by (simp_all add: sample_categories_def is_empty_def canonical_def)
  from category_aggregation_iff [OF this]
  have b: "\<exists>trend. plot_summary ?df = Inr (Some (LineChart trend), None)"
    by (simp add: sample_categories_def canonical_def cell_at_def cell_of_def)
  from a b show ?thesis
    by (rule conjI)
qed

lemma report_lines_no_image:
  "report_lines data = Inr ls \<Longrightarrow> Image_flowable p w h \<notin> set ls"
  by (auto simp: report_lines_def split: if_splits option.splits)

text \<open>
  Claim C8, amended. When \<open>get_pdf_download\<close> returns the document, no file is left that
  was not there before the call, and every image the document embeds has been removed.
\<close>

theorem temp_files_removed_on_success:
  assumes "get_pdf_download e data files = (Inr doc, files')"
  shows "files' \<subseteq> files \<and> (\<forall>p w h. Image_flowable p w h \<in> set doc \<longrightarrow> p \<notin> files')"
proof -
  from assms obtain ls where ls: "report_lines data = Inr ls"
    by (auto simp: get_pdf_download_def split: sum.splits)
  from assms ls obtain fig1 fig2 where p: "plot_summary data = Inr (fig1, fig2)"
    by (auto simp: get_pdf_download_def Let_def split: sum.splits)
  note no = report_lines_no_image [OF ls]
  from assms show ?thesis
    by (auto simp: get_pdf_download_def ls p no Let_def split: if_splits)
qed

lemma report_lines_sample:
  "report_lines sample
     = Inr [RowLine [Date (Timestamp 2024 1 1), Str ''Income'', Str ''Salary'', Str ''pay'', Num 1000],
            Spacer 6,
            RowLine [Date (Timestamp 2024 1 2), Str ''Expense'', NaN, Str ''lunch'', Num 12],
            Spacer 6]"
  by (simp add: report_lines_def sample_def canonical_def cell_at_def cell_of_def)

text \<open>
  Claim C8 fails on a failure path: when \<^verbatim>\<open>doc.build\<close> raises, the function is left
  before the lines that remove the images (there is no \<^verbatim>\<open>try\<close> around the export), and
  both image files written by the call remain.
\<close>

theorem temp_files_left_on_failure:
  "get_pdf_download \<lparr>write_image_ok = (\<lambda>p. True), build_ok = False\<rparr> sample {}
     = (Inl ExportError, {''trend_plot.png'', ''pie_chart.png''})"
  by (simp add: get_pdf_download_def plot_summary_sample report_lines_sample Let_def
        insert_commute)

lemma get_pdf_download_sample:
  "get_pdf_download \<lparr>write_image_ok = (\<lambda>p. True), build_ok = True\<rparr> sample {''notes.txt''}
     = (Inr [Heading ''Finance Report'', Spacer 12,
             RowLine [Date (Timestamp 2024 1 1), Str ''Income'', Str ''Salary'', Str ''pay'', Num 1000],
             Spacer 6,
             RowLine [Date (Timestamp 2024 1 2), Str ''Expense'', NaN, Str ''lunch'', Num 12],
             Spacer 6,
             Spacer 12, Image_flowable ''trend_plot.png'' 480 250,
             Spacer 12, Image_flowable ''pie_chart.png'' 400 250],
        {''notes.txt''})"
  by (simp add: get_pdf_download_def plot_summary_sample report_lines_sample Let_def
        insert_Diff_if)

theorem temp_files_removed_on_success_witness:
  "snd (get_pdf_download \<lparr>write_image_ok = (\<lambda>p. True), build_ok = True\<rparr> sample {''notes.txt''})
       \<subseteq> {''notes.txt''}
   \<and> ''trend_plot.png''
       \<notin> snd (get_pdf_download \<lparr>write_image_ok = (\<lambda>p. True), build_ok = True\<rparr> sample {''notes.txt''})
   \<and> ''pie_chart.png''
       \<notin> snd (get_pdf_download \<lparr>write_image_ok = (\<lambda>p. True), build_ok = True\<rparr> sample {''notes.txt''})"
  using temp_files_removed_on_success [OF get_pdf_download_sample]
  by (simp add: get_pdf_download_sample)

end
